theory Spec2Isabelle
  imports Complex_Main "HOL-Library.Word" "HOL-Library.Sublist"
begin

section \<open>The mesh of package gi3d: data model\<close>

text \<open>
  The development embeds \<^verbatim>\<open>MeshBase\<close> of package \<^verbatim>\<open>gi3d\<close> and its methods
  \<^verbatim>\<open>Validate\<close>, \<^verbatim>\<open>Reset\<close>, \<^verbatim>\<open>MakeVectors\<close>, \<^verbatim>\<open>AddPlane\<close>, \<^verbatim>\<open>SetPlane\<close> and
  \<^verbatim>\<open>PlaneSize\<close>.

  Conventions of the embedding.
  \<^item> Go's \<^verbatim>\<open>int\<close> is \<open>int\<close>. Every \<^verbatim>\<open>int\<close> of these methods is an array length, an
    offset into an array or a segment count that sizes an array, so the model and the
    program agree on every run whose arrays fit the machine's address space; runs in which
    a product of segment counts wraps around are outside the model.
  \<^item> \<^verbatim>\<open>uint32\<close> is \<open>32 word\<close>; the conversion \<^verbatim>\<open>uint32(i)\<close> is \<open>word_of_int\<close>.
  \<^item> \<^verbatim>\<open>float32\<close> is \<open>real\<close>. The properties proved below are about array lengths,
    offsets, index values and the constants \<open>0\<close>, \<open>1\<close>, \<open>-1\<close>; the one scenario that
    computes coordinates uses \<open>0\<close>, \<open>1\<close> and \<open>2\<close> only, on which single precision
    arithmetic is exact.
  \<^item> A slice is a list; \<^verbatim>\<open>nil\<close> and the empty slice are both \<open>[]\<close>.
  \<^item> A run ends by returning or by a runtime panic (an index out of range, a nil
    dereference). Both outcomes carry the state reached, since the receiver is a pointer
    and the writes made before a panic stay in the mesh.
\<close>

type_synonym float32 = real
type_synonym ArrayF32 = "float32 list"
type_synonym ArrayU32 = "32 word list"

datatype 's outcome = Returns 's | Panics 's

fun state_of :: "'s outcome \<Rightarrow> 's" where
  "state_of (Returns s) = s"
| "state_of (Panics s) = s"

fun and_then :: "'s outcome \<Rightarrow> ('s \<Rightarrow> 's outcome) \<Rightarrow> 's outcome" where
  "and_then (Returns s) f = f s"
| "and_then (Panics s) f = Panics s"

fun map_state :: "('s \<Rightarrow> 't) \<Rightarrow> 's outcome \<Rightarrow> 't outcome" where
  "map_state g (Returns s) = Returns (g s)"
| "map_state g (Panics s) = Panics (g s)"

text \<open>
  \<^verbatim>\<open>for i := 0; i < n; i++ { body }\<close> runs the body on \<open>[0..n - 1]\<close>, and stops at the
  first panic.
\<close>

fun for_loop :: "'i list \<Rightarrow> ('i \<Rightarrow> 's \<Rightarrow> 's outcome) \<Rightarrow> 's \<Rightarrow> 's outcome" where
  "for_loop [] body s = Returns s"
| "for_loop (i # is) body s = and_then (body i s) (for_loop is body)"

subsection \<open>The GPU buffer manager\<close>

text \<open>
  Modelled from the spec: the interface \<^verbatim>\<open>gpu.BufferMgr\<close> with its vectors buffer and
  indexes buffer (package \<^verbatim>\<open>oswin/gpu\<close>, not among the sources at hand). The spec lists the
  operations of the graphics context: create-buffer-manager, add-vector-stream,
  add-index-stream, set-length, set-data. A buffer is modelled by the values the calls
  stored in it, and every call on the GPU is recorded in the world's list of calls.
\<close>

datatype Usage = StaticDraw | DynamicDraw

datatype InVec = InVtxPos | InVtxNorm | InVtxTex | InVtxColor

type_synonym Vectors = string

text \<open>The scene is read through \<^verbatim>\<open>sc.Renders.Vectors[...]\<close> only.\<close>

type_synonym Scene = "InVec \<Rightarrow> Vectors"

record VectorsBuffer =
  VUsage :: Usage
  Vecs :: "(Vectors \<times> bool) list"
  VLen :: int
  VData :: "(Vectors \<times> ArrayF32) list"

record IndexesBuffer =
  IUsage :: Usage
  ILen :: int
  IData :: ArrayU32

record BufferMgr =
  VecBuf :: "VectorsBuffer option"
  IdxBuf :: "IndexesBuffer option"

datatype gpu_call =
    NewBufferMgr
  | AddVectorsBuffer Usage
  | AddIndexesBuffer Usage
  | GetVectorsBuffer
  | GetIndexesBuffer
  | NumVectors
  | DeleteAllVectors
  | AddVectors Vectors bool
  | SetLen int
  | SetVecData Vectors ArrayF32
  | IdxSetLen int
  | IdxSet ArrayU32

record world =
  Logged :: "string list"
  GPUCalls :: "gpu_call list"

subsection \<open>MeshBase\<close>

text \<open>
  The struct, field by field. \<^verbatim>\<open>BBox\<close> is read and written by none of the methods
  embedded here; its type is a parameter. \<^verbatim>\<open>Buff\<close> is an interface value: \<open>None\<close> is
  \<^verbatim>\<open>nil\<close>.
\<close>

record 'bb MeshBase =
  Nm :: string
  Dynamic :: bool
  Trans :: bool
  Vtx :: ArrayF32
  Norm :: ArrayF32
  Tex :: ArrayF32
  Idx :: ArrayU32
  Color :: ArrayF32
  BBox :: 'bb
  Buff :: "BufferMgr option"

definition Name :: "'bb MeshBase \<Rightarrow> string" where
  "Name ms = Nm ms"

definition HasColor :: "'bb MeshBase \<Rightarrow> bool" where
  "HasColor ms = (length (Color ms) > 0)"

definition IsTransparent :: "'bb MeshBase \<Rightarrow> bool" where
  "IsTransparent ms = (if \<not> HasColor ms then False else Trans ms)"

definition Reset :: "'bb MeshBase \<Rightarrow> 'bb MeshBase" where
  "Reset ms = ms\<lparr>Vtx := [], Norm := [], Tex := [], Idx := [], Color := []\<rparr>"

section \<open>Validate\<close>

subsection \<open>Formatting\<close>

text \<open>
  \<^verbatim>\<open>fmt\<close>'s verb \<^verbatim>\<open>%d\<close> on an \<^verbatim>\<open>int\<close>, and its verb \<^verbatim>\<open>%v\<close> on a value of function
  type: \<^verbatim>\<open>0x\<close> and the code address in lower-case hexadecimal (\<^verbatim>\<open><nil>\<close> for a nil
  function).
\<close>

fun dec :: "nat \<Rightarrow> string" where
  "dec n = (if n < 10 then [''0123456789'' ! n]
            else dec (n div 10) @ [''0123456789'' ! (n mod 10)])"

declare dec.simps [simp del]

definition fmt_d :: "int \<Rightarrow> string" where
  "fmt_d i = (if i < 0 then ''-'' @ dec (nat (- i)) else dec (nat i))"

fun hex :: "nat \<Rightarrow> string" where
  "hex n = (if n < 16 then [''0123456789abcdef'' ! n]
            else hex (n div 16) @ [''0123456789abcdef'' ! (n mod 16)])"

declare hex.simps [simp del]

definition fmt_v_func :: "nat \<Rightarrow> string" where
  "fmt_v_func addr = (if addr = 0 then ''<nil>'' else ''0x'' @ hex addr)"

subsection \<open>The method\<close>

datatype error = Errorf string

fun Error :: "error \<Rightarrow> string" where
  "Error (Errorf msg) = msg"

text \<open>\<^verbatim>\<open>log.Println(err)\<close>: the message joins the log.\<close>

definition log_Println :: "error \<Rightarrow> world \<Rightarrow> world" where
  "log_Println err w = w\<lparr>Logged := Logged w @ [Error err]\<rparr>"

text \<open>
  The source formats \<^verbatim>\<open>ms.Name\<close>, the method value, not \<^verbatim>\<open>ms.Name()\<close> or \<^verbatim>\<open>ms.Nm\<close>:
  the verb \<^verbatim>\<open>%v\<close> receives a function. Its code address is the parameter \<open>name_addr\<close>;
  it is fixed by the linker and does not depend on the mesh.
\<close>

definition Validate :: "nat \<Rightarrow> 'bb MeshBase \<Rightarrow> world \<Rightarrow> error option \<times> world" where
  "Validate name_addr ms w =
    (let vln = int (length (Vtx ms)) div 3 in
     if vln = 0 then
       (let err = Errorf (''gi3d.Mesh: '' @ fmt_v_func name_addr @ '' has no verticies'')
        in (Some err, log_Println err w))
     else
     let nln = int (length (Norm ms)) div 3 in
     if nln \<noteq> vln then
       (let err = Errorf (''gi3d.Mesh: '' @ fmt_v_func name_addr @ '' number of Norms: ''
                    @ fmt_d nln @ '' != Vtx: '' @ fmt_d vln)
        in (Some err, log_Println err w))
     else
     let tln = int (length (Tex ms)) div 2 in
     if tln \<noteq> vln then
       (let err = Errorf (''gi3d.Mesh: '' @ fmt_v_func name_addr @ '' number of Tex: ''
                    @ fmt_d tln @ '' != Vtx: '' @ fmt_d vln)
        in (Some err, log_Println err w))
     else
     let cln = int (length (Color ms)) div 4 in
     if cln = 0 then (None, w)
     else
     if cln \<noteq> vln then
       (let err = Errorf (''gi3d.Mesh: '' @ fmt_v_func name_addr @ '' number of Colors: ''
                    @ fmt_d cln @ '' != Vtx: '' @ fmt_d vln)
        in (Some err, log_Println err w))
     else (None, w))"

section \<open>PlaneSize\<close>

text \<open>\<^verbatim>\<open>ints.MaxInt\<close> of package \<^verbatim>\<open>goki/ki/ints\<close>.\<close>

definition MaxInt :: "int \<Rightarrow> int \<Rightarrow> int" where
  "MaxInt a b = (if a > b then a else b)"

definition PlaneSize :: "int \<Rightarrow> int \<Rightarrow> int \<times> int" where
  "PlaneSize wsegs hsegs =
    (let wsegs = MaxInt wsegs 1;
         hsegs = MaxInt hsegs 1
     in ((wsegs + 1) * (hsegs + 1), wsegs * hsegs * 6))"

section \<open>MakeVectors\<close>

definition gpu :: "gpu_call list \<Rightarrow> world \<Rightarrow> world" where
  "gpu cs w = w\<lparr>GPUCalls := GPUCalls w @ cs\<rparr>"

definition new_VectorsBuffer :: "Usage \<Rightarrow> VectorsBuffer" where
  "new_VectorsBuffer usg = \<lparr>VUsage = usg, Vecs = [], VLen = 0, VData = []\<rparr>"

definition new_IndexesBuffer :: "Usage \<Rightarrow> IndexesBuffer" where
  "new_IndexesBuffer usg = \<lparr>IUsage = usg, ILen = 0, IData = []\<rparr>"

definition vb_SetVecData :: "Vectors \<Rightarrow> ArrayF32 \<Rightarrow> VectorsBuffer \<Rightarrow> VectorsBuffer" where
  "vb_SetVecData v d vb = vb\<lparr>VData := (v, d) # filter (\<lambda>e. fst e \<noteq> v) (VData vb)\<rparr>"

text \<open>Lines 229 to 242: the buffers are created on first use, and fetched afterwards.\<close>

definition fetch_buffers ::
  "'bb MeshBase \<Rightarrow> world \<Rightarrow>
   VectorsBuffer option \<times> IndexesBuffer option \<times> 'bb MeshBase \<times> world" where
  "fetch_buffers ms w =
    (case Buff ms of
       None \<Rightarrow>
         (let usg = (if Dynamic ms then DynamicDraw else StaticDraw);
              vb = new_VectorsBuffer usg;
              ib = new_IndexesBuffer StaticDraw
          in (Some vb, Some ib,
              ms\<lparr>Buff := Some \<lparr>VecBuf = Some vb, IdxBuf = Some ib\<rparr>\<rparr>,
              gpu [NewBufferMgr, AddVectorsBuffer usg, AddIndexesBuffer StaticDraw] w))
     | Some b \<Rightarrow> (VecBuf b, IdxBuf b, ms, gpu [GetVectorsBuffer, GetIndexesBuffer] w))"

text \<open>Lines 243 to 269: the vectors of the vectors buffer, its length and its data.\<close>

definition set_vectors ::
  "Scene \<Rightarrow> 'bb MeshBase \<Rightarrow> VectorsBuffer \<Rightarrow> world \<Rightarrow> VectorsBuffer \<times> world" where
  "set_vectors sc ms vbuf w =
    (let hasColor = HasColor ms;
         nvec = (if hasColor then 3 + 1 else (3::int));
         vtx = sc InVtxPos;
         nrm = sc InVtxNorm;
         tex = sc InVtxTex;
         clr = sc InVtxColor;
         vbuf1 = (if int (length (Vecs vbuf)) \<noteq> nvec
                  then vbuf\<lparr>Vecs := [(vtx, True), (nrm, True), (tex, True)]
                                     @ (if hasColor then [(clr, False)] else [])\<rparr>
                  else vbuf);
         w1 = (if int (length (Vecs vbuf)) \<noteq> nvec
               then gpu ([NumVectors, DeleteAllVectors, AddVectors vtx True,
                          AddVectors nrm True, AddVectors tex True]
                         @ (if hasColor then [AddVectors clr False] else [])) w
               else gpu [NumVectors] w);
         vln = int (length (Vtx ms)) div 3;
         vbuf2 = vb_SetVecData tex (Tex ms)
                   (vb_SetVecData nrm (Norm ms)
                     (vb_SetVecData vtx (Vtx ms) (vbuf1\<lparr>VLen := vln\<rparr>)));
         vbuf3 = (if hasColor then vb_SetVecData clr (Color ms) vbuf2 else vbuf2);
         w2 = gpu ([SetLen vln, SetVecData vtx (Vtx ms), SetVecData nrm (Norm ms),
                    SetVecData tex (Tex ms)]
                   @ (if hasColor then [SetVecData clr (Color ms)] else [])) w1
     in (vbuf3, w2))"

text \<open>Lines 272 to 274: the length and the data of the indexes buffer.\<close>

definition set_index_data ::
  "'bb MeshBase \<Rightarrow> IndexesBuffer \<Rightarrow> world \<Rightarrow> IndexesBuffer \<times> world" where
  "set_index_data ms ibuf w =
    (let iln = int (length (Idx ms))
     in (ibuf\<lparr>ILen := iln, IData := Idx ms\<rparr>, gpu [IdxSetLen iln, IdxSet (Idx ms)] w))"

text \<open>
  The method validates first and returns the validation error at once; only then does it
  touch the buffers. A call on a missing (nil) vectors or indexes buffer is a nil
  dereference.
\<close>

definition MakeVectors ::
  "nat \<Rightarrow> Scene \<Rightarrow> 'bb MeshBase \<Rightarrow> world \<Rightarrow> (error option \<times> 'bb MeshBase \<times> world) outcome" where
  "MakeVectors name_addr sc ms w =
    (case Validate name_addr ms w of
       (Some err, w1) \<Rightarrow> Returns (Some err, ms, w1)
     | (None, w1) \<Rightarrow>
        (case fetch_buffers ms w1 of
           (None, ibuf0, ms1, w2) \<Rightarrow> Panics (None, ms1, w2)
         | (Some vbuf, ibuf0, ms1, w2) \<Rightarrow>
            (case set_vectors sc ms1 vbuf w2 of
               (vbuf3, w4) \<Rightarrow>
                 (case ibuf0 of
                    None \<Rightarrow>
                      Panics (None, ms1\<lparr>Buff := Some \<lparr>VecBuf = Some vbuf3, IdxBuf = None\<rparr>\<rparr>, w4)
                  | Some ibuf \<Rightarrow>
                     (case set_index_data ms1 ibuf w4 of
                        (ibuf1, w5) \<Rightarrow>
                          Returns (None,
                            ms1\<lparr>Buff := Some \<lparr>VecBuf = Some vbuf3, IdxBuf = Some ibuf1\<rparr>\<rparr>,
                            w5))))))"

section \<open>Planes\<close>

subsection \<open>Vectors, arrays and colours\<close>

text \<open>
  Modelled from the spec: the helpers of package \<^verbatim>\<open>mat32\<close> (\<^verbatim>\<open>Dims\<close>, \<^verbatim>\<open>Vec2\<close>,
  \<^verbatim>\<open>Vec3\<close>, \<^verbatim>\<open>Vec4\<close>, \<^verbatim>\<open>ArrayF32\<close>, \<^verbatim>\<open>ArrayU32\<close>) and the colour of package \<^verbatim>\<open>gi\<close>,
  which are not among the sources at hand. The spec has three spatial axes, positions
  and normals of three floats, texture coordinates of two, colours of four (RGBA), an
  optional uniform colour, and arrays that are extended by a number of new (zero)
  elements and written at offsets. A write at an offset outside the array is the
  runtime's index-out-of-range panic; the elements written before it stay written.
\<close>

datatype Dims = X | Y | Z

type_synonym Vec2 = "float32 \<times> float32"
type_synonym Vec3 = "float32 \<times> float32 \<times> float32"
type_synonym Vec4 = "float32 \<times> float32 \<times> float32 \<times> float32"

fun Vec3_SetDim :: "Dims \<Rightarrow> float32 \<Rightarrow> Vec3 \<Rightarrow> Vec3" where
  "Vec3_SetDim X v (a, b, c) = (v, b, c)"
| "Vec3_SetDim Y v (a, b, c) = (a, v, c)"
| "Vec3_SetDim Z v (a, b, c) = (a, b, v)"

definition set_at :: "'a list \<Rightarrow> int \<Rightarrow> 'a \<Rightarrow> 'a list outcome" where
  "set_at arr i v =
    (if 0 \<le> i \<and> i < int (length arr) then Returns (arr[nat i := v]) else Panics arr)"

fun set_from :: "'a list \<Rightarrow> int \<Rightarrow> 'a list \<Rightarrow> 'a list outcome" where
  "set_from arr pos [] = Returns arr"
| "set_from arr pos (v # vs) = and_then (set_at arr pos v) (\<lambda>arr'. set_from arr' (pos + 1) vs)"

definition Vec2_ToArray :: "Vec2 \<Rightarrow> ArrayF32 \<Rightarrow> int \<Rightarrow> ArrayF32 outcome" where
  "Vec2_ToArray v arr offset = (case v of (a, b) \<Rightarrow> set_from arr offset [a, b])"

definition Vec3_ToArray :: "Vec3 \<Rightarrow> ArrayF32 \<Rightarrow> int \<Rightarrow> ArrayF32 outcome" where
  "Vec3_ToArray v arr offset = (case v of (a, b, c) \<Rightarrow> set_from arr offset [a, b, c])"

definition Vec4_ToArray :: "Vec4 \<Rightarrow> ArrayF32 \<Rightarrow> int \<Rightarrow> ArrayF32 outcome" where
  "Vec4_ToArray v arr offset = (case v of (a, b, c, d) \<Rightarrow> set_from arr offset [a, b, c, d])"

definition ArrayU32_Set :: "ArrayU32 \<Rightarrow> int \<Rightarrow> 32 word list \<Rightarrow> ArrayU32 outcome" where
  "ArrayU32_Set arr pos vs = set_from arr pos vs"

text \<open>\<^verbatim>\<open>Extend\<close> appends new zero elements; every call below has a positive count.\<close>

definition Extend :: "'a::zero list \<Rightarrow> int \<Rightarrow> 'a list" where
  "Extend arr addLen = arr @ replicate (nat addLen) 0"

type_synonym gi_Color = "8 word \<times> 8 word \<times> 8 word \<times> 8 word"

definition Color_IsNil :: "gi_Color \<Rightarrow> bool" where
  "Color_IsNil c = (c = (0, 0, 0, 0))"

definition ColorToVec4f :: "gi_Color \<Rightarrow> Vec4" where
  "ColorToVec4f c =
    (case c of (r, g, b, a) \<Rightarrow>
       (real (unat r) / 255, real (unat g) / 255, real (unat b) / 255, real (unat a) / 255))"

subsection \<open>SetPlane\<close>

text \<open>The values that the two loops of \<^verbatim>\<open>SetPlane\<close> read and do not change.\<close>

record plane_vars =
  p_setNorm :: bool
  p_setTex :: bool
  p_hasColor :: bool
  p_waxis :: Dims
  p_haxis :: Dims
  p_w :: Dims
  p_segWidth :: float32
  p_segHeight :: float32
  p_fwdir :: float32
  p_fhdir :: float32
  p_woff :: float32
  p_hoff :: float32
  p_zoff :: float32
  p_wsegs :: int
  p_hsegs :: int
  p_norm :: Vec3
  p_clrv :: Vec4

text \<open>The variables that the vertex loop changes, and the mesh.\<close>

record 'bb vtx_state =
  l_vtx :: Vec3
  l_tex :: Vec2
  l_vidx :: int
  l_tidx :: int
  l_cidx :: int
  l_ms :: "'bb MeshBase"

text \<open>Lines 375 to 382: the axis of the normal.\<close>

definition normal_axis :: "Dims \<Rightarrow> Dims \<Rightarrow> Dims" where
  "normal_axis waxis haxis =
    (if (waxis = X \<and> haxis = Y) \<or> (waxis = Y \<and> haxis = X) then Z
     else if (waxis = X \<and> haxis = Z) \<or> (waxis = Z \<and> haxis = X) then Y
     else if (waxis = Z \<and> haxis = Y) \<or> (waxis = Y \<and> haxis = Z) then X
     else Z)"

text \<open>Lines 386 to 391: the normal.\<close>

definition plane_normal :: "Dims \<Rightarrow> float32 \<Rightarrow> Vec3" where
  "plane_normal w zoff =
    (if zoff > 0 then Vec3_SetDim w 1 (0, 0, 0) else Vec3_SetDim w (- 1) (0, 0, 0))"

text \<open>Lines 409 to 419: the vertex arrays grow to hold the plane.\<close>

definition grow_vertex_arrays :: "int \<Rightarrow> int \<Rightarrow> bool \<Rightarrow> 'bb MeshBase \<Rightarrow> 'bb MeshBase" where
  "grow_vertex_arrays stVtxIdx vtxSz hasColor ms =
    (let sz = int (length (Vtx ms)) div 3 in
     if stVtxIdx + vtxSz > sz then
       (let dif = (stVtxIdx + vtxSz) - sz;
            ms1 = ms\<lparr>Vtx := Extend (Vtx ms) (dif * 3),
                     Norm := Extend (Norm ms) (dif * 3),
                     Tex := Extend (Tex ms) (dif * 2)\<rparr>
        in if hasColor then ms1\<lparr>Color := Extend (Color ms1) (dif * 4)\<rparr> else ms1)
     else ms)"

text \<open>Lines 430 to 446: the body of the vertex loop.\<close>

definition vtx_body :: "plane_vars \<Rightarrow> int \<Rightarrow> int \<Rightarrow> 'bb vtx_state \<Rightarrow> 'bb vtx_state outcome" where
  "vtx_body p iy ix s =
    (let vtx1 = Vec3_SetDim (p_waxis p)
                  ((real_of_int ix * p_segWidth p) * p_fwdir p + p_woff p) (l_vtx s);
         vtx2 = Vec3_SetDim (p_haxis p)
                  ((real_of_int iy * p_segHeight p) * p_fhdir p + p_hoff p) vtx1;
         vtx3 = Vec3_SetDim (p_w p) (p_zoff p) vtx2;
         s1 = s\<lparr>l_vtx := vtx3\<rparr>
     in
     and_then
       (map_state (\<lambda>arr. s1\<lparr>l_ms := (l_ms s1)\<lparr>Vtx := arr\<rparr>\<rparr>)
          (Vec3_ToArray vtx3 (Vtx (l_ms s1)) (l_vidx s1)))
     (\<lambda>s2.
     and_then
       (if p_setNorm p then
          map_state (\<lambda>arr. s2\<lparr>l_ms := (l_ms s2)\<lparr>Norm := arr\<rparr>\<rparr>)
            (Vec3_ToArray (p_norm p) (Norm (l_ms s2)) (l_vidx s2))
        else Returns s2)
     (\<lambda>s3.
     and_then
       (if p_setTex p then
          (let tex = (real_of_int ix / real_of_int (p_wsegs p),
                      1 - (real_of_int iy / real_of_int (p_hsegs p)));
               s4 = s3\<lparr>l_tex := tex\<rparr>
           in and_then
                (map_state (\<lambda>arr. s4\<lparr>l_ms := (l_ms s4)\<lparr>Tex := arr\<rparr>\<rparr>)
                   (Vec2_ToArray tex (Tex (l_ms s4)) (l_tidx s4)))
                (\<lambda>s5. Returns (s5\<lparr>l_tidx := l_tidx s5 + 2\<rparr>)))
        else Returns s3)
     (\<lambda>s6.
     and_then
       (if p_hasColor p then
          and_then
            (map_state (\<lambda>arr. s6\<lparr>l_ms := (l_ms s6)\<lparr>Color := arr\<rparr>\<rparr>)
               (Vec4_ToArray (p_clrv p) (Color (l_ms s6)) (l_cidx s6)))
            (\<lambda>s7. Returns (s7\<lparr>l_cidx := l_cidx s7 + 4\<rparr>))
        else Returns s6)
     (\<lambda>s8. Returns (s8\<lparr>l_vidx := l_vidx s8 + 3\<rparr>))))))"

text \<open>Lines 458 to 463: the body of the index loop, on the pair of \<^verbatim>\<open>sidx\<close> and the mesh.\<close>

definition idx_body ::
  "int \<Rightarrow> int \<Rightarrow> int \<Rightarrow> int \<Rightarrow> int \<times> 'bb MeshBase \<Rightarrow> (int \<times> 'bb MeshBase) outcome" where
  "idx_body wsegs1 stVtxIdx iy ix st =
    (case st of (sidx, ms) \<Rightarrow>
      (let a = ix + wsegs1 * iy;
           b = ix + wsegs1 * (iy + 1);
           c = (ix + 1) + wsegs1 * (iy + 1);
           d = (ix + 1) + wsegs1 * iy
       in and_then
            (map_state (\<lambda>arr. (sidx, ms\<lparr>Idx := arr\<rparr>))
               (ArrayU32_Set (Idx ms) sidx
                  [word_of_int (a + stVtxIdx), word_of_int (b + stVtxIdx),
                   word_of_int (d + stVtxIdx), word_of_int (b + stVtxIdx),
                   word_of_int (c + stVtxIdx), word_of_int (d + stVtxIdx)]))
            (\<lambda>st'. Returns (fst st' + 6, snd st'))))"

text \<open>Lines 450 to 466: the indexes.\<close>

definition set_indexes ::
  "int \<Rightarrow> int \<Rightarrow> int \<Rightarrow> int \<Rightarrow> int \<Rightarrow> 'bb MeshBase \<Rightarrow> 'bb MeshBase outcome" where
  "set_indexes stVtxIdx stIdxIdx wsegs hsegs idxSz ms =
    (let lidx = int (length (Idx ms));
         ms1 = (if stIdxIdx + idxSz > lidx
                then ms\<lparr>Idx := Extend (Idx ms) ((stIdxIdx + idxSz) - lidx)\<rparr> else ms);
         sidx = stIdxIdx
     in map_state snd
          (for_loop [0..hsegs - 1]
             (\<lambda>iy. for_loop [0..wsegs - 1] (\<lambda>ix. idx_body (wsegs + 1) stVtxIdx iy ix))
             (sidx, ms1)))"

definition SetPlane ::
  "int \<Rightarrow> int \<Rightarrow> bool \<Rightarrow> bool \<Rightarrow> bool \<Rightarrow> Dims \<Rightarrow> Dims \<Rightarrow> int \<Rightarrow> int \<Rightarrow>
   float32 \<Rightarrow> float32 \<Rightarrow> float32 \<Rightarrow> float32 \<Rightarrow> float32 \<Rightarrow> int \<Rightarrow> int \<Rightarrow> gi_Color \<Rightarrow>
   'bb MeshBase \<Rightarrow> 'bb MeshBase outcome" where
  "SetPlane stVtxIdx stIdxIdx setNorm setTex setIdx waxis haxis wdir hdir
            width height woff hoff zoff wsegs hsegs clr ms =
    (let w = normal_axis waxis haxis;
         wsegs = MaxInt wsegs 1;
         hsegs = MaxInt hsegs 1;
         norm = plane_normal w zoff;
         wsegs1 = wsegs + 1;
         hsegs1 = hsegs + 1;
         segWidth = width / real_of_int wsegs;
         segHeight = height / real_of_int hsegs;
         fwdir = real_of_int wdir;
         fhdir = real_of_int hdir;
         woff = (if wdir < 0 then width + woff else woff);
         hoff = (if hdir < 0 then height + hoff else hoff);
         hasColor = (\<not> Color_IsNil clr);
         (vtxSz, idxSz) = PlaneSize wsegs hsegs;
         ms1 = grow_vertex_arrays stVtxIdx vtxSz hasColor ms;
         p = \<lparr>p_setNorm = setNorm, p_setTex = setTex, p_hasColor = hasColor,
              p_waxis = waxis, p_haxis = haxis, p_w = w,
              p_segWidth = segWidth, p_segHeight = segHeight,
              p_fwdir = fwdir, p_fhdir = fhdir, p_woff = woff, p_hoff = hoff, p_zoff = zoff,
              p_wsegs = wsegs, p_hsegs = hsegs, p_norm = norm, p_clrv = ColorToVec4f clr\<rparr>;
         s0 = \<lparr>l_vtx = (0, 0, 0), l_tex = (0, 0),
               l_vidx = stVtxIdx * 3, l_tidx = stVtxIdx * 2, l_cidx = stVtxIdx * 4,
               l_ms = ms1\<rparr>
     in and_then
          (map_state l_ms
             (for_loop [0..hsegs1 - 1]
                (\<lambda>iy. for_loop [0..wsegs1 - 1] (\<lambda>ix. vtx_body p iy ix)) s0))
          (\<lambda>ms2. if setIdx then set_indexes stVtxIdx stIdxIdx wsegs hsegs idxSz ms2
                  else Returns ms2))"

subsection \<open>AddPlane\<close>


section \<open>The loops of SetPlane when no write panics\<close>

text \<open>
  The functions of this section are not part of the program: they say what the loops
  compute when every write is in range, and the lemmas below relate them to the loops.
  \<open>overwrite arr n vs\<close> is \<open>arr\<close> with the elements from offset \<open>n\<close> on replaced by \<open>vs\<close>.
\<close>

definition overwrite :: "'a list \<Rightarrow> nat \<Rightarrow> 'a list \<Rightarrow> 'a list" where
  "overwrite arr n vs = take n arr @ vs @ drop (n + length vs) arr"

text \<open>What is left of a write that panics.\<close>

definition partial_write :: "'a list \<Rightarrow> int \<Rightarrow> 'a list \<Rightarrow> 'a list" where
  "partial_write arr pos vs = state_of (set_from arr pos vs)"

fun Vec2_list :: "Vec2 \<Rightarrow> float32 list" where
  "Vec2_list (a, b) = [a, b]"

fun Vec3_list :: "Vec3 \<Rightarrow> float32 list" where
  "Vec3_list (a, b, c) = [a, b, c]"

fun Vec4_list :: "Vec4 \<Rightarrow> float32 list" where
  "Vec4_list (a, b, c, d) = [a, b, c, d]"

definition vtx_pos :: "plane_vars \<Rightarrow> int \<Rightarrow> int \<Rightarrow> Vec3 \<Rightarrow> Vec3" where
  "vtx_pos p iy ix v =
    Vec3_SetDim (p_w p) (p_zoff p)
      (Vec3_SetDim (p_haxis p) ((real_of_int iy * p_segHeight p) * p_fhdir p + p_hoff p)
        (Vec3_SetDim (p_waxis p) ((real_of_int ix * p_segWidth p) * p_fwdir p + p_woff p) v))"

definition vtx_uv :: "plane_vars \<Rightarrow> int \<Rightarrow> int \<Rightarrow> Vec2" where
  "vtx_uv p iy ix =
    (real_of_int ix / real_of_int (p_wsegs p), 1 - (real_of_int iy / real_of_int (p_hsegs p)))"

text \<open>One pass of the body of the vertex loop.\<close>

definition vtx_step :: "plane_vars \<Rightarrow> int \<Rightarrow> int \<Rightarrow> 'bb vtx_state \<Rightarrow> 'bb vtx_state" where
  "vtx_step p iy ix s =
    \<lparr>l_vtx = vtx_pos p iy ix (l_vtx s),
     l_tex = (if p_setTex p then vtx_uv p iy ix else l_tex s),
     l_vidx = l_vidx s + 3,
     l_tidx = (if p_setTex p then l_tidx s + 2 else l_tidx s),
     l_cidx = (if p_hasColor p then l_cidx s + 4 else l_cidx s),
     l_ms = (l_ms s)
       \<lparr>Vtx := overwrite (Vtx (l_ms s)) (nat (l_vidx s)) (Vec3_list (vtx_pos p iy ix (l_vtx s))),
        Norm := (if p_setNorm p
                 then overwrite (Norm (l_ms s)) (nat (l_vidx s)) (Vec3_list (p_norm p))
                 else Norm (l_ms s)),
        Tex := (if p_setTex p
                then overwrite (Tex (l_ms s)) (nat (l_tidx s)) (Vec2_list (vtx_uv p iy ix))
                else Tex (l_ms s)),
        Color := (if p_hasColor p
                  then overwrite (Color (l_ms s)) (nat (l_cidx s)) (Vec4_list (p_clrv p))
                  else Color (l_ms s))\<rparr>\<rparr>"

fun vtx_steps :: "plane_vars \<Rightarrow> (int \<times> int) list \<Rightarrow> 'bb vtx_state \<Rightarrow> 'bb vtx_state" where
  "vtx_steps p [] s = s"
| "vtx_steps p (c # cs) s = vtx_steps p cs (vtx_step p (fst c) (snd c) s)"

text \<open>The arrays have room for \<open>n\<close> passes of the body.\<close>

definition vtx_room :: "plane_vars \<Rightarrow> 'bb vtx_state \<Rightarrow> nat \<Rightarrow> bool" where
  "vtx_room p s n =
    (0 \<le> l_vidx s \<and> l_vidx s + 3 * int n \<le> int (length (Vtx (l_ms s))) \<and>
     (if p_setNorm p then l_vidx s + 3 * int n \<le> int (length (Norm (l_ms s))) else True) \<and>
     (if p_setTex p
      then 0 \<le> l_tidx s \<and> l_tidx s + 2 * int n \<le> int (length (Tex (l_ms s))) else True) \<and>
     (if p_hasColor p
      then 0 \<le> l_cidx s \<and> l_cidx s + 4 * int n \<le> int (length (Color (l_ms s))) else True))"

text \<open>The six indexes of the grid cell \<open>(ix, iy)\<close>: the triangles \<open>(a, b, d)\<close> and \<open>(b, c, d)\<close>.\<close>

definition cell_indexes :: "int \<Rightarrow> int \<Rightarrow> int \<times> int \<Rightarrow> 32 word list" where
  "cell_indexes wsegs1 stVtxIdx c =
    (case c of (iy, ix) \<Rightarrow>
      [word_of_int (ix + wsegs1 * iy + stVtxIdx),
       word_of_int (ix + wsegs1 * (iy + 1) + stVtxIdx),
       word_of_int ((ix + 1) + wsegs1 * iy + stVtxIdx),
       word_of_int (ix + wsegs1 * (iy + 1) + stVtxIdx),
       word_of_int ((ix + 1) + wsegs1 * (iy + 1) + stVtxIdx),
       word_of_int ((ix + 1) + wsegs1 * iy + stVtxIdx)])"

section \<open>Meshes, worlds and a scene for the concrete runs\<close>

definition new_mesh :: "unit MeshBase" where
  "new_mesh = \<lparr>Nm = ''Plane'', Dynamic = False, Trans = False, Vtx = [], Norm = [], Tex = [],
     Idx = [], Color = [], BBox = (), Buff = None\<rparr>"

definition plane_mesh :: "unit MeshBase" where
  "plane_mesh = new_mesh\<lparr>Vtx := [0, 0, 1,  2, 0, 1,  0, 2, 1,  2, 2, 1],
                   Norm := [0, 0, 1,  0, 0, 1,  0, 0, 1,  0, 0, 1],
                   Tex := [0, 1,  1, 1,  0, 0,  1, 0],
                   Idx := [0, 2, 1,  2, 3, 1]\<rparr>"

definition world0 :: world where
  "world0 = \<lparr>Logged = [], GPUCalls = []\<rparr>"

definition scene0 :: Scene where
  "scene0 v = (case v of InVtxPos \<Rightarrow> ''VtxPos'' | InVtxNorm \<Rightarrow> ''VtxNorm''
     | InVtxTex \<Rightarrow> ''VtxTex'' | InVtxColor \<Rightarrow> ''VtxColor'')"


text \<open>
  The plane mesh after its first \<^verbatim>\<open>MakeVectors\<close>: the buffer manager is in \<^verbatim>\<open>Buff\<close>, and
  the world holds the calls made on it.
\<close>

definition compiled_plane_mesh :: "unit MeshBase" where
  "compiled_plane_mesh = plane_mesh\<lparr>Buff := Some
     \<lparr>VecBuf = Some \<lparr>VUsage = StaticDraw,
                      Vecs = [(''VtxPos'', True), (''VtxNorm'', True), (''VtxTex'', True)],
                      VLen = 4,
                      VData = [(''VtxTex'', [0, 1,  1, 1,  0, 0,  1, 0]),
                               (''VtxNorm'', [0, 0, 1,  0, 0, 1,  0, 0, 1,  0, 0, 1]),
                               (''VtxPos'', [0, 0, 1,  2, 0, 1,  0, 2, 1,  2, 2, 1])]\<rparr>,
      IdxBuf = Some \<lparr>IUsage = StaticDraw, ILen = 6, IData = [0, 2, 1,  2, 3, 1]\<rparr>\<rparr>\<rparr>"

definition compiled_world :: world where
  "compiled_world = \<lparr>Logged = [],
     GPUCalls = [NewBufferMgr, AddVectorsBuffer StaticDraw, AddIndexesBuffer StaticDraw,
       NumVectors, DeleteAllVectors, AddVectors ''VtxPos'' True, AddVectors ''VtxNorm'' True,
       AddVectors ''VtxTex'' True, SetLen 4,
       SetVecData ''VtxPos'' [0, 0, 1,  2, 0, 1,  0, 2, 1,  2, 2, 1],
       SetVecData ''VtxNorm'' [0, 0, 1,  0, 0, 1,  0, 0, 1,  0, 0, 1],
       SetVecData ''VtxTex'' [0, 1,  1, 1,  0, 0,  1, 0],
       IdxSetLen 6, IdxSet [0, 2, 1,  2, 3, 1]]\<rparr>"


text \<open>A mesh as it is at construction or after \<^verbatim>\<open>Reset\<close>: every array is empty.\<close>

definition empty_arrays :: "'bb MeshBase \<Rightarrow> bool" where
  "empty_arrays ms =
    (Vtx ms = [] \<and> Norm ms = [] \<and> Tex ms = [] \<and> Idx ms = [] \<and> Color ms = [])"

section \<open>Lemmas: loops, writes and the plane generator\<close>

subsection \<open>Loops and outcomes\<close>






lemma state_of_map_state [simp]: "state_of (map_state g r) = g (state_of r)"
  by (cases r) simp_all

lemma outcome_eq_state_of: "r = Returns (state_of r) \<or> r = Panics (state_of r)"
  by (cases r) simp_all

subsection \<open>Overwriting a stretch of an array\<close>

lemma length_overwrite [simp]:
  "n + length vs \<le> length arr \<Longrightarrow> length (overwrite arr n vs) = length arr"
  by (simp add: overwrite_def)

lemma overwrite_Nil [simp]: "overwrite arr n [] = arr"
  by (simp add: overwrite_def)


lemma overwrite_Cons:
  "n < length arr \<Longrightarrow> overwrite (arr[n := v]) (Suc n) vs = overwrite arr n (v # vs)"
  by (simp add: overwrite_def upd_conv_take_nth_drop add.commute)

lemma take_overwrite [simp]: "n \<le> length arr \<Longrightarrow> take n (overwrite arr n vs) = take n arr"
  by (simp add: overwrite_def)

lemma drop_overwrite [simp]:
  "n + length vs \<le> length arr \<Longrightarrow> drop (n + length vs) (overwrite arr n vs) = drop (n + length vs) arr"
  by (simp add: overwrite_def)



subsection \<open>Writes\<close>

lemma set_from_Returns_iff:
  "(set_from arr pos vs = Returns arr') =
   (arr' = overwrite arr (nat pos) vs \<and> (vs = [] \<or> (0 \<le> pos \<and> pos + int (length vs) \<le> int (length arr))))"
proof (induction vs arbitrary: arr pos)
  case Nil
  show ?case by auto
next
  case (Cons v vs)
  show ?case
  proof (cases "0 \<le> pos \<and> pos < int (length arr)")
    case True
    then have n: "nat pos < length arr" "nat (pos + 1) = Suc (nat pos)" by auto
    have "set_at arr pos v = Returns (arr[nat pos := v])"
      using True by (simp add: set_at_def)
    then show ?thesis
      using True n by (auto simp: Cons.IH overwrite_Cons)
  next
    case False
    then have "set_at arr pos v = Panics arr" by (auto simp: set_at_def)
    then show ?thesis using False by auto
  qed
qed

lemma set_from_total:
  "set_from arr pos vs =
    (if vs = [] \<or> (0 \<le> pos \<and> pos + int (length vs) \<le> int (length arr))
     then Returns (overwrite arr (nat pos) vs) else Panics (partial_write arr pos vs))"
  using set_from_Returns_iff [of arr pos vs] outcome_eq_state_of [of "set_from arr pos vs"]
  by (auto simp: partial_write_def)

lemma Vec3_ToArray_eq: "Vec3_ToArray v arr off = set_from arr off (Vec3_list v)"
  by (cases v) (simp add: Vec3_ToArray_def)

lemma Vec2_ToArray_eq: "Vec2_ToArray v arr off = set_from arr off (Vec2_list v)"
  by (cases v) (simp add: Vec2_ToArray_def)

lemma Vec4_ToArray_eq: "Vec4_ToArray v arr off = set_from arr off (Vec4_list v)"
  by (cases v) (simp add: Vec4_ToArray_def)

lemma length_Vec2_list [simp]: "length (Vec2_list u) = 2"
  by (cases u) simp

lemma length_Vec3_list [simp]: "length (Vec3_list v) = 3"
  by (cases v) simp

lemma length_Vec4_list [simp]: "length (Vec4_list c) = 4"
  by (cases c) simp

lemma Vec_list_not_Nil [simp]: "Vec2_list u \<noteq> []" "Vec3_list v \<noteq> []" "Vec4_list c \<noteq> []"
  by (cases u, simp) (cases v, simp, cases c, simp)

lemmas ToArray_total =
  Vec2_ToArray_eq Vec3_ToArray_eq Vec4_ToArray_eq set_from_total

subsection \<open>The body of the vertex loop\<close>

lemma vtx_body_room:
  "vtx_room p s 1 \<Longrightarrow> vtx_body p iy ix s = Returns (vtx_step p iy ix s)"
  by (auto simp: vtx_body_def Let_def ToArray_total vtx_room_def vtx_step_def vtx_pos_def vtx_uv_def)

lemma vtx_body_no_room:
  "\<not> vtx_room p s 1 \<Longrightarrow> vtx_body p iy ix s \<noteq> Returns s'"
  by (auto simp: vtx_body_def Let_def ToArray_total vtx_room_def split: if_splits)

lemma vtx_body_Returns_iff:
  "(vtx_body p iy ix s = Returns s') = (vtx_room p s 1 \<and> s' = vtx_step p iy ix s)"
  by (cases "vtx_room p s 1") (auto simp: vtx_body_room vtx_body_no_room)

subsection \<open>The vertex loop\<close>

lemma vtx_step_sel [simp]:
  "l_vidx (vtx_step p iy ix s) = l_vidx s + 3"
  "l_tidx (vtx_step p iy ix s) = (if p_setTex p then l_tidx s + 2 else l_tidx s)"
  "l_cidx (vtx_step p iy ix s) = (if p_hasColor p then l_cidx s + 4 else l_cidx s)"
  by (simp_all add: vtx_step_def)





lemma vtx_steps_vidx [simp]:
  "l_vidx (vtx_steps p cs s) = l_vidx s + 3 * int (length cs)"
  by (induction cs arbitrary: s) simp_all

lemma vtx_steps_frame:
  "(l_ms (vtx_steps p cs s))\<lparr>Vtx := a, Norm := b, Tex := c, Color := d\<rparr>
     = (l_ms s)\<lparr>Vtx := a, Norm := b, Tex := c, Color := d\<rparr>"
  by (induction cs arbitrary: s) (simp_all add: vtx_step_def)





subsection \<open>The index loop\<close>

lemma length_cell_indexes [simp]: "length (cell_indexes w1 st c) = 6"
  by (cases c) (simp add: cell_indexes_def)



subsection \<open>SetPlane through its loops\<close>



lemma length_product_upto:
  "0 \<le> a \<Longrightarrow> 0 \<le> b \<Longrightarrow> int (length (List.product [0..a - 1] [0..b - 1])) = a * b"
  by simp


subsection \<open>Growing the vertex arrays\<close>

lemma grow_frame:
  "(grow_vertex_arrays st n hc ms)\<lparr>Vtx := a, Norm := b, Tex := c, Color := d\<rparr>
     = ms\<lparr>Vtx := a, Norm := b, Tex := c, Color := d\<rparr>"
  by (simp add: grow_vertex_arrays_def Let_def)

lemma grow_Vtx_room:
  "0 \<le> st \<Longrightarrow> 0 \<le> n \<Longrightarrow> 3 * (st + n) \<le> int (length (Vtx (grow_vertex_arrays st n hc ms)))"
  by (simp add: grow_vertex_arrays_def Let_def Extend_def) linarith



subsection \<open>What a call of SetPlane that returns has done\<close>



lemma grow_other:
  "Idx (grow_vertex_arrays st n hc ms) = Idx ms"
  "Nm (grow_vertex_arrays st n hc ms) = Nm ms"
  "Dynamic (grow_vertex_arrays st n hc ms) = Dynamic ms"
  "Trans (grow_vertex_arrays st n hc ms) = Trans ms"
  "BBox (grow_vertex_arrays st n hc ms) = BBox ms"
  "Buff (grow_vertex_arrays st n hc ms) = Buff ms"
  by (simp_all add: grow_vertex_arrays_def Let_def)


subsection \<open>Blocks of a concatenation, cells of the grid\<close>


lemma length_concat_cells [simp]:
  "length (concat (map (cell_indexes w1 st) cs)) = 6 * length cs"
  by (induction cs) simp_all






subsection \<open>A plane set into an empty mesh\<close>



subsection \<open>Appending a plane\<close>






lemma nil_color [simp]: "Color_IsNil (0, 0, 0, 0)"
  by (simp add: Color_IsNil_def)

lemma red_color [simp]:
  "\<not> Color_IsNil (255, 0, 0, 255)" "ColorToVec4f (255, 0, 0, 255) = (1, 0, 0, 1)"
  by (simp_all add: Color_IsNil_def ColorToVec4f_def)

subsection \<open>What every run leaves untouched\<close>









subsection \<open>The normals\<close>





section \<open>PlaneSize: the sizing formula\<close>



section \<open>Validate: when it succeeds\<close>

text \<open>
  Claim C1, as stated, says that \<^verbatim>\<open>Validate\<close> succeeds exactly when the normal count and
  the texcoord count equal the vertex count and the colour count is 0 or the vertex
  count, for every mesh, the mesh with zero vertices included. On the mesh with no
  vertices the three conditions hold, and \<^verbatim>\<open>Validate\<close> returns the error of its first
  check (line 193).
\<close>

theorem Validate_empty_mesh_counterexample:
  "fst (Validate 4872032 new_mesh world0) \<noteq> None \<and>
   int (length (Norm new_mesh)) div 3 = int (length (Vtx new_mesh)) div 3 \<and>
   int (length (Tex new_mesh)) div 2 = int (length (Vtx new_mesh)) div 3 \<and>
   int (length (Color new_mesh)) div 4 = 0"
  by (simp add: Validate_def new_mesh_def Let_def)

text \<open>
  Claim C1, amended. \<^verbatim>\<open>Validate\<close> succeeds if and only if the vertex count is not zero,
  the normal count and the texcoord count both equal the vertex count, and the colour
  count is 0 or equal to the vertex count (counts of 3-float, 2-float and 4-float
  vectors, by integer division); in every other case it returns an error.
\<close>

theorem Validate_succeeds_iff:
  "(fst (Validate name_addr ms w) = None) =
   (int (length (Vtx ms)) div 3 \<noteq> 0 \<and>
    int (length (Norm ms)) div 3 = int (length (Vtx ms)) div 3 \<and>
    int (length (Tex ms)) div 2 = int (length (Vtx ms)) div 3 \<and>
    (int (length (Color ms)) div 4 = 0 \<or>
     int (length (Color ms)) div 4 = int (length (Vtx ms)) div 3))"
  by (simp add: Validate_def Let_def)

section \<open>Validate: the error message\<close>

lemma Validate_ignores_Nm:
  "fst (Validate name_addr (ms\<lparr>Nm := n\<rparr>) w) = fst (Validate name_addr ms w)"
  by (simp add: Validate_def Let_def)

lemma hex_example: "hex 4872032 = ''4a5760''"
  by (simp add: hex.simps)

lemma Validate_new_mesh:
  "Validate 4872032 new_mesh w
     = (Some (Errorf ''gi3d.Mesh: 0x4a5760 has no verticies''),
        w\<lparr>Logged := Logged w @ [''gi3d.Mesh: 0x4a5760 has no verticies'']\<rparr>)"
  by (simp add: Validate_def new_mesh_def Let_def fmt_v_func_def hex_example log_Println_def)

text \<open>
  Claim C8 says that every error of \<^verbatim>\<open>Validate\<close> contains the mesh's name (the field
  \<^verbatim>\<open>Nm\<close>). The four messages do tell the four failures apart, but the argument of
  \<^verbatim>\<open>%v\<close> is the method value \<^verbatim>\<open>ms.Name\<close>, so the message holds a code address where
  the name was meant (lemma \<open>Validate_ignores_Nm\<close>: the error does not depend on
  \<^verbatim>\<open>Nm\<close>). The run on the mesh named \<^verbatim>\<open>Plane\<close> with no vertices: the message does not
  contain \<^verbatim>\<open>Plane\<close>.
\<close>

theorem Validate_message_lacks_name:
  "Nm new_mesh = ''Plane'' \<and>
   fst (Validate 4872032 new_mesh world0)
     = Some (Errorf ''gi3d.Mesh: 0x4a5760 has no verticies'') \<and>
   \<not> sublist ''Plane'' ''gi3d.Mesh: 0x4a5760 has no verticies''"
proof -
  have "\<not> sublist ''Plane'' ''gi3d.Mesh: 0x4a5760 has no verticies''"
  proof
    assume "sublist ''Plane'' ''gi3d.Mesh: 0x4a5760 has no verticies''"
    then have "set ''Plane'' \<subseteq> set ''gi3d.Mesh: 0x4a5760 has no verticies''"
      by (rule set_mono_sublist)
    then show False by simp
  qed
  then show ?thesis by (simp add: Validate_new_mesh) (simp add: new_mesh_def)
qed

section \<open>MakeVectors: the validation guard\<close>

text \<open>
  Claim C7. Whenever \<^verbatim>\<open>Validate\<close> returns an error, \<^verbatim>\<open>MakeVectors\<close> returns that same
  error and performs no buffer operation: the mesh, its field \<^verbatim>\<open>Buff\<close> included, is
  unchanged, and the list of GPU calls is unchanged (the only effect is the line that
  \<^verbatim>\<open>Validate\<close> logs).
\<close>

theorem MakeVectors_validation_error:
  "fst (Validate name_addr ms w) = Some err \<Longrightarrow>
   MakeVectors name_addr sc ms w = Returns (Some err, ms, w\<lparr>Logged := Logged w @ [Error err]\<rparr>)"
  by (cases "Validate name_addr ms w")
     (auto simp: MakeVectors_def Validate_def Let_def log_Println_def split: if_splits)

theorem MakeVectors_validation_error_witness:
  "fst (Validate 4872032 new_mesh world0) = Some (Errorf ''gi3d.Mesh: 0x4a5760 has no verticies'') \<and>
   MakeVectors 4872032 scene0 new_mesh world0
     = Returns (Some (Errorf ''gi3d.Mesh: 0x4a5760 has no verticies''), new_mesh,
                world0\<lparr>Logged := Logged world0 @ [''gi3d.Mesh: 0x4a5760 has no verticies'']\<rparr>)"
proof -
  have v: "fst (Validate 4872032 new_mesh world0)
             = Some (Errorf ''gi3d.Mesh: 0x4a5760 has no verticies'')"
    by (simp add: Validate_new_mesh)
  show ?thesis
    using v MakeVectors_validation_error [OF v, of scene0] by simp
qed

section \<open>Reset\<close>

lemma Validate_plane_mesh: "Validate a plane_mesh w = (None, w)"
  by (simp add: Validate_def plane_mesh_def new_mesh_def)

lemma MakeVectors_plane_mesh:
  "MakeVectors 4872032 scene0 plane_mesh world0 = Returns (None, compiled_plane_mesh, compiled_world)"
  apply (simp only: MakeVectors_def Validate_plane_mesh Let_def prod.case option.case)
  apply (simp add: fetch_buffers_def set_vectors_def
      set_index_data_def Let_def gpu_def new_VectorsBuffer_def new_IndexesBuffer_def
      vb_SetVecData_def HasColor_def scene0_def plane_mesh_def new_mesh_def world0_def
      compiled_plane_mesh_def compiled_world_def)
  done

text \<open>
  Claim C9, as stated, says that after \<^verbatim>\<open>Reset\<close> the field \<^verbatim>\<open>Buff\<close> no longer holds the
  buffer manager created before. \<^verbatim>\<open>Reset\<close> assigns the five arrays only. The run:
  \<^verbatim>\<open>MakeVectors\<close> on a one-segment plane creates the buffer manager, and \<^verbatim>\<open>Reset\<close> leaves
  it in \<^verbatim>\<open>Buff\<close>.
\<close>

theorem Reset_keeps_Buff_counterexample:
  "MakeVectors 4872032 scene0 plane_mesh world0
     = Returns (None, compiled_plane_mesh, compiled_world) \<and>
   Buff compiled_plane_mesh \<noteq> None \<and>
   Buff (Reset compiled_plane_mesh) = Buff compiled_plane_mesh"
  by (simp add: MakeVectors_plane_mesh) (simp add: Reset_def compiled_plane_mesh_def)

text \<open>
  Claim C9, amended. \<^verbatim>\<open>Reset\<close> clears the vertex, normal, texcoord, index and colour
  arrays to empty and changes nothing else: the field \<^verbatim>\<open>Buff\<close> holds what it held
  before (the GPU binding is not released), and so do the name, the two flags and the
  bounding box.
\<close>

theorem Reset_effect:
  "Vtx (Reset ms) = [] \<and> Norm (Reset ms) = [] \<and> Tex (Reset ms) = [] \<and>
   Idx (Reset ms) = [] \<and> Color (Reset ms) = [] \<and>
   Buff (Reset ms) = Buff ms \<and> Nm (Reset ms) = Nm ms \<and> Dynamic (Reset ms) = Dynamic ms \<and>
   Trans (Reset ms) = Trans ms \<and> BBox (Reset ms) = BBox ms"
  by (simp add: Reset_def)

section \<open>SetPlane: the one-segment scenario\<close>

text \<open>
  Claim C3, as stated, lists the four positions in storage order as
  \<open>(0,0,1), (0,2,1), (2,0,1), (2,2,1)\<close>. The width loop is the inner one, so the second
  vertex stored is \<open>(2,0,1)\<close>: the array of positions is not the claimed one.
\<close>

theorem SetPlane_scenario_counterexample:
  "Vtx (state_of (SetPlane 0 0 True True True X Y 1 1 2 2 0 0 1 1 1 (0, 0, 0, 0) new_mesh))
     \<noteq> [0, 0, 1,  0, 2, 1,  2, 0, 1,  2, 2, 1]"
  by code_simp

text \<open>
  Claim C3, amended. \<^verbatim>\<open>SetPlane\<close> on an empty mesh with \<open>stVtxIdx = 0\<close>, \<open>stIdxIdx = 0\<close>,
  \<open>setNorm = setTex = setIdx = true\<close>, \<open>waxis = X\<close>, \<open>haxis = Y\<close>, \<open>wdir = hdir = 1\<close>,
  \<open>width = height = 2\<close>, \<open>woff = hoff = 0\<close>, \<open>zoff = 1\<close>, \<open>wsegs = hsegs = 1\<close> and the nil
  colour returns, and produces exactly 4 vertices whose positions are, in storage
  order, \<open>(0,0,1), (2,0,1), (0,2,1), (2,2,1)\<close>, exactly 6 indices forming the 2 triangles
  \<open>(0,2,1)\<close> and \<open>(2,3,1)\<close>, and the normal \<open>(0,0,1)\<close> at every vertex.
\<close>

theorem SetPlane_scenario:
  "empty_arrays ms \<Longrightarrow>
   SetPlane 0 0 True True True X Y 1 1 2 2 0 0 1 1 1 (0, 0, 0, 0) ms
     = Returns (ms\<lparr>Vtx := [0, 0, 1,  2, 0, 1,  0, 2, 1,  2, 2, 1],
                   Norm := [0, 0, 1,  0, 0, 1,  0, 0, 1,  0, 0, 1],
                   Tex := [0, 1,  1, 1,  0, 0,  1, 0],
                   Idx := [0, 2, 1,  2, 3, 1]\<rparr>)"
  by (simp add: empty_arrays_def SetPlane_def normal_axis_def MaxInt_def plane_normal_def
      PlaneSize_def grow_vertex_arrays_def Extend_def Color_IsNil_def vtx_body_def
      Vec3_ToArray_def Vec2_ToArray_def set_at_def set_indexes_def idx_body_def ArrayU32_Set_def
      upto.simps ColorToVec4f_def eval_nat_numeral)

theorem SetPlane_scenario_witness:
  "empty_arrays new_mesh \<and>
   SetPlane 0 0 True True True X Y 1 1 2 2 0 0 1 1 1 (0, 0, 0, 0) new_mesh
     = Returns (new_mesh\<lparr>Vtx := [0, 0, 1,  2, 0, 1,  0, 2, 1,  2, 2, 1],
                   Norm := [0, 0, 1,  0, 0, 1,  0, 0, 1,  0, 0, 1],
                   Tex := [0, 1,  1, 1,  0, 0,  1, 0],
                   Idx := [0, 2, 1,  2, 3, 1]\<rparr>)"
proof -
  have e: "empty_arrays new_mesh" by (simp add: empty_arrays_def new_mesh_def)
  show ?thesis using e SetPlane_scenario [OF e] by simp
qed

section \<open>SetPlane: the indexes of a plane set into an empty mesh\<close>




section \<open>Two planes appended to one mesh\<close>




section \<open>The normals of a plane\<close>



section \<open>A plane without colour\<close>



end
